theory Spec2Isabelle
  imports Complex_Main "HOL-Library.Word"
begin

unbundle bit_operations_syntax

section \<open>Example.init (thinc/api.pxd)\<close>

text \<open>
  \<^verbatim>\<open>Example.init\<close> allocates five arrays from a cymem \<^verbatim>\<open>Pool\<close>, fills the first one
  (\<^verbatim>\<open>is_valid\<close>) with \<^verbatim>\<open>memset(is_valid, 1, sizeof(is_valid[0]) * nr_class)\<close> and
  returns an \<^verbatim>\<open>ExampleC\<close> struct literal.

  Memory is a map from block addresses to the bytes of the block. A pointer is either
  \<^verbatim>\<open>NULL\<close> or the address of a block. \<^verbatim>\<open>Pool.alloc(number, elem_size)\<close> belongs to the
  cymem library, which is outside this repository: it is modelled by its documented
  contract (a new block of \<^verbatim>\<open>number * elem_size\<close> zero bytes, remembered by the pool);
  a failing \<^verbatim>\<open>malloc\<close> (MemoryError) is not modelled. The declarations of
  \<^verbatim>\<open>weight_t\<close>, \<^verbatim>\<open>atom_t\<close> and \<^verbatim>\<open>FeatureC\<close> (typedefs.pxd, structs.pxd) are not among
  the sources, so their sizes are parameters. A C \<^verbatim>\<open>int\<close> has four bytes.
\<close>

type_synonym byte = "8 word"

datatype ptr = NULL | Ptr nat

record Pool =
  addresses :: "nat \<rightharpoonup> byte list"
  next_addr :: nat

record sizes =
  sizeof_weight_t :: nat
  sizeof_atom_t :: nat
  sizeof_FeatureC :: nat

definition sizeof_int :: nat where
  "sizeof_int = 4"

definition Pool_alloc :: "Pool \<Rightarrow> nat \<Rightarrow> nat \<Rightarrow> ptr \<times> Pool" where
  "Pool_alloc mem number elem_size =
     (let a = next_addr mem
      in (Ptr a,
          mem\<lparr>addresses := (addresses mem)(a \<mapsto> replicate (number * elem_size) 0),
              next_addr := Suc a\<rparr>))"

text \<open>
  \<^verbatim>\<open>memset(p, c, n)\<close>: the first \<^verbatim>\<open>n\<close> bytes of the block at \<^verbatim>\<open>p\<close> become \<^verbatim>\<open>c\<close>. It
  writes into the block that is there and never makes it longer: of a block shorter than
  \<^verbatim>\<open>n\<close> only the bytes it has are set (in C the rest of the write is out of bounds), and
  for \<^verbatim>\<open>NULL\<close> or an address the pool does not hold there is no block to write into.
\<close>

definition memset :: "Pool \<Rightarrow> ptr \<Rightarrow> byte \<Rightarrow> nat \<Rightarrow> Pool" where
  "memset mem p c n =
     (case p of
        NULL \<Rightarrow> mem
      | Ptr a \<Rightarrow>
          (case addresses mem a of
             None \<Rightarrow> mem
           | Some bs \<Rightarrow> mem\<lparr>addresses := (addresses mem)(a \<mapsto> replicate (min n (length bs)) c @ drop n bs)\<rparr>))"

record ExampleC =
  is_valid :: ptr
  costs :: ptr
  atoms :: ptr
  features :: ptr
  scores :: ptr
  gradient :: ptr
  fwd_state :: ptr
  bwd_state :: ptr
  nr_class :: int
  nr_atom :: int
  nr_feat :: int
  guess :: int
  best :: int
  cost :: real

text \<open>
  The counts are C \<^verbatim>\<open>int\<close>s handed to \<^verbatim>\<open>size_t\<close> parameters; for the non-negative counts
  the function is used with, that conversion is \<^term>\<open>nat\<close>. The parameter
  \<^verbatim>\<open>nr_embed\<close> is not used by the body.
\<close>

definition Example_init ::
  "sizes \<Rightarrow> Pool \<Rightarrow> int \<Rightarrow> int \<Rightarrow> int \<Rightarrow> int \<Rightarrow> ExampleC \<times> Pool" where
  "Example_init sz mem n_class n_atom n_feat n_embed =
     (let (is_valid0, mem1) = Pool_alloc mem (nat n_class) sizeof_int;
          mem2 = memset mem1 is_valid0 1 (sizeof_int * nat n_class);
          (costs0, mem3) = Pool_alloc mem2 (nat n_class) (sizeof_weight_t sz);
          (atoms0, mem4) = Pool_alloc mem3 (nat n_atom) (sizeof_atom_t sz);
          (features0, mem5) = Pool_alloc mem4 (nat n_feat) (sizeof_FeatureC sz);
          (scores0, mem6) = Pool_alloc mem5 (nat n_class) (sizeof_weight_t sz)
      in (\<lparr>is_valid = is_valid0,
           costs = costs0,
           atoms = atoms0,
           features = features0,
           scores = scores0,
           gradient = NULL,
           fwd_state = NULL,
           bwd_state = NULL,
           nr_class = n_class,
           nr_atom = n_atom,
           nr_feat = n_feat,
           guess = 0,
           best = 0,
           cost = 0\<rparr>, mem6))"

text \<open>
  The \<^verbatim>\<open>i\<close>-th \<^verbatim>\<open>int\<close> of a block of bytes, least significant byte first, and the block a
  pointer refers to (empty for \<^verbatim>\<open>NULL\<close> and for an address the pool does not hold).
\<close>

definition int_at :: "byte list \<Rightarrow> nat \<Rightarrow> 32 word" where
  "int_at bs i =
     word_of_nat (unat (bs ! (4 * i)) + 256 * unat (bs ! (4 * i + 1))
       + 65536 * unat (bs ! (4 * i + 2)) + 16777216 * unat (bs ! (4 * i + 3)))"

definition block_of :: "Pool \<Rightarrow> ptr \<Rightarrow> byte list" where
  "block_of mem p =
     (case p of
        NULL \<Rightarrow> []
      | Ptr a \<Rightarrow> (case addresses mem a of None \<Rightarrow> [] | Some bs \<Rightarrow> bs))"

section \<open>The complex GEMV kernels (thinc/_files/kernel/zarch/zgemv_n_4.c)\<close>

text \<open>
  \<^verbatim>\<open>FLOAT\<close> is \<^verbatim>\<open>double\<close>; it is modelled by \<^typ>\<open>real\<close>, so all statements are about
  exact arithmetic. \<^verbatim>\<open>BLASLONG\<close> is a signed 64-bit integer, modelled by \<^typ>\<open>int\<close>
  (signed overflow is undefined in C and no claim depends on it).

  An array is a function from index to value, and \<^verbatim>\<open>p + k\<close> for a pointer \<^verbatim>\<open>p\<close> is the
  array seen from index \<^verbatim>\<open>k\<close> on. The arrays handed to a function are distinct objects:
  a write to the output array changes no input array, as with the scratch buffer the
  driver passes to the kernels.

  \<^verbatim>\<open>CONJ\<close> and \<^verbatim>\<open>XCONJ\<close> are compile-time macros; the record \<open>cfg\<close> says which of
  them are defined. The file itself defines \<^verbatim>\<open>HAVE_KERNEL_4x4_VEC\<close>,
  \<^verbatim>\<open>HAVE_KERNEL_4x2_VEC\<close>, \<^verbatim>\<open>HAVE_KERNEL_4x1_VEC\<close> and \<^verbatim>\<open>HAVE_KERNEL_ADDY\<close> and leaves
  \<^verbatim>\<open>IGNORE_TEMP_PERM\<close> undefined, so the vector variants are the ones compiled.
  A \<^verbatim>\<open>__vector double\<close> is a pair of doubles with componentwise arithmetic.
\<close>

record cfg =
  CONJ :: bool
  XCONJ :: bool

definition same_conj :: "cfg \<Rightarrow> bool" where
  "same_conj c = ((\<not> CONJ c \<and> \<not> XCONJ c) \<or> (CONJ c \<and> XCONJ c))"

type_synonym farray = "int \<Rightarrow> real"
type_synonym vec2 = "real \<times> real"

definition vmul :: "vec2 \<Rightarrow> vec2 \<Rightarrow> vec2" where
  "vmul u v = (fst u * fst v, snd u * snd v)"

definition vadd :: "vec2 \<Rightarrow> vec2 \<Rightarrow> vec2" where
  "vadd u v = (fst u + fst v, snd u + snd v)"

definition vsub :: "vec2 \<Rightarrow> vec2 \<Rightarrow> vec2" where
  "vsub u v = (fst u - fst v, snd u - snd v)"

definition ptr_add :: "farray \<Rightarrow> int \<Rightarrow> farray" where
  "ptr_add p k = (\<lambda>i. p (k + i))"

subsection \<open>zgemv_kernel_4x4, vector variant (lines 55-133)\<close>

text \<open>
  The eight \<^verbatim>\<open>vx\<close> registers are loaded from \<^verbatim>\<open>x\<close> before the loop. One iteration of
  \<^verbatim>\<open>for (i = 0; i < 2 * n; i += 4)\<close> reads and writes \<^verbatim>\<open>y[i..i+3]\<close>, two complex
  entries.
\<close>

definition zgemv_kernel_4x4_body ::
  "cfg \<Rightarrow> farray \<Rightarrow> farray \<Rightarrow> farray \<Rightarrow> farray \<Rightarrow> vec2 \<Rightarrow> vec2 \<Rightarrow> vec2 \<Rightarrow> vec2
     \<Rightarrow> vec2 \<Rightarrow> vec2 \<Rightarrow> vec2 \<Rightarrow> vec2 \<Rightarrow> int \<Rightarrow> farray \<Rightarrow> farray" where
  "zgemv_kernel_4x4_body c a0 a1 a2 a3 vx0_r vx0_i vx1_r vx1_i vx2_r vx2_i vx3_r vx3_i i y =
     (let vresult_r = (y i, y (i + 2));
          vresult_i = (y (i + 1), y (i + 3));
          va0_r = (a0 i, a0 (i + 2));
          va0_i = (a0 (i + 1), a0 (i + 3));
          va1_r = (a1 i, a1 (i + 2));
          va1_i = (a1 (i + 1), a1 (i + 3));
          va2_r = (a2 i, a2 (i + 2));
          va2_i = (a2 (i + 1), a2 (i + 3));
          va3_r = (a3 i, a3 (i + 2));
          va3_i = (a3 (i + 1), a3 (i + 3));
          (vresult_r, vresult_i) =
            (if same_conj c then
               (let vresult_r = vsub (vmul va0_r vx0_r) (vsub (vmul va0_i vx0_i) vresult_r);
                    vresult_i = vadd (vadd vresult_i (vmul va0_r vx0_i)) (vmul va0_i vx0_r);
                    vresult_r = vsub (vmul va1_r vx1_r) (vsub (vmul va1_i vx1_i) vresult_r);
                    vresult_i = vadd (vadd vresult_i (vmul va1_r vx1_i)) (vmul va1_i vx1_r);
                    vresult_r = vsub (vmul va2_r vx2_r) (vsub (vmul va2_i vx2_i) vresult_r);
                    vresult_i = vadd (vadd vresult_i (vmul va2_r vx2_i)) (vmul va2_i vx2_r);
                    vresult_r = vsub (vmul va3_r vx3_r) (vsub (vmul va3_i vx3_i) vresult_r);
                    vresult_i = vadd (vadd vresult_i (vmul va3_r vx3_i)) (vmul va3_i vx3_r)
                in (vresult_r, vresult_i))
             else
               (let vresult_r = vadd (vadd vresult_r (vmul va0_r vx0_r)) (vmul va0_i vx0_i);
                    vresult_i = vsub (vmul va0_r vx0_i) (vsub (vmul va0_i vx0_r) vresult_i);
                    vresult_r = vadd (vadd vresult_r (vmul va1_r vx1_r)) (vmul va1_i vx1_i);
                    vresult_i = vsub (vmul va1_r vx1_i) (vsub (vmul va1_i vx1_r) vresult_i);
                    vresult_r = vadd (vadd vresult_r (vmul va2_r vx2_r)) (vmul va2_i vx2_i);
                    vresult_i = vsub (vmul va2_r vx2_i) (vsub (vmul va2_i vx2_r) vresult_i);
                    vresult_r = vadd (vadd vresult_r (vmul va3_r vx3_r)) (vmul va3_i vx3_i);
                    vresult_i = vsub (vmul va3_r vx3_i) (vsub (vmul va3_i vx3_r) vresult_i)
                in (vresult_r, vresult_i)));
          y = y(i := fst vresult_r);
          y = y(i + 1 := fst vresult_i);
          y = y(i + 2 := snd vresult_r);
          y = y(i + 3 := snd vresult_i)
      in y)"

function zgemv_kernel_4x4_loop ::
  "cfg \<Rightarrow> int \<Rightarrow> farray \<Rightarrow> farray \<Rightarrow> farray \<Rightarrow> farray \<Rightarrow> vec2 \<Rightarrow> vec2 \<Rightarrow> vec2 \<Rightarrow> vec2
     \<Rightarrow> vec2 \<Rightarrow> vec2 \<Rightarrow> vec2 \<Rightarrow> vec2 \<Rightarrow> int \<Rightarrow> farray \<Rightarrow> farray" where
  "zgemv_kernel_4x4_loop c n a0 a1 a2 a3 vx0_r vx0_i vx1_r vx1_i vx2_r vx2_i vx3_r vx3_i i y =
     (if i < 2 * n
      then zgemv_kernel_4x4_loop c n a0 a1 a2 a3 vx0_r vx0_i vx1_r vx1_i vx2_r vx2_i vx3_r vx3_i
             (i + 4)
             (zgemv_kernel_4x4_body c a0 a1 a2 a3 vx0_r vx0_i vx1_r vx1_i vx2_r vx2_i vx3_r vx3_i
                i y)
      else y)"
  by pat_completeness auto
termination
  by (relation "measure (\<lambda>(c, n, a0, a1, a2, a3, vx0_r, vx0_i, vx1_r, vx1_i, vx2_r, vx2_i,
        vx3_r, vx3_i, i, y). nat (2 * n - i))") auto

declare zgemv_kernel_4x4_loop.simps [simp del]

definition zgemv_kernel_4x4 :: "cfg \<Rightarrow> int \<Rightarrow> (nat \<Rightarrow> farray) \<Rightarrow> farray \<Rightarrow> farray \<Rightarrow> farray" where
  "zgemv_kernel_4x4 c n ap x y =
     (let a0 = ap 0;
          a1 = ap 1;
          a2 = ap 2;
          a3 = ap 3;
          vx0_r = (x 0, x 0);
          vx0_i = (x 1, x 1);
          vx1_r = (x 2, x 2);
          vx1_i = (x 3, x 3);
          vx2_r = (x 4, x 4);
          vx2_i = (x 5, x 5);
          vx3_r = (x 6, x 6);
          vx3_i = (x 7, x 7)
      in zgemv_kernel_4x4_loop c n a0 a1 a2 a3 vx0_r vx0_i vx1_r vx1_i vx2_r vx2_i vx3_r vx3_i
           0 y)"

subsection \<open>zgemv_kernel_4x4, scalar fallback (lines 136-167)\<close>

text \<open>
  The variant compiled when \<^verbatim>\<open>HAVE_KERNEL_4x4_VEC\<close> is not defined. One iteration of
  \<^verbatim>\<open>for (i = 0; i < 2 * n; i += 2)\<close> performs the eight \<^verbatim>\<open>+=\<close> statements in order.
\<close>

definition zgemv_kernel_4x4_scalar_body ::
  "cfg \<Rightarrow> farray \<Rightarrow> farray \<Rightarrow> farray \<Rightarrow> farray \<Rightarrow> farray \<Rightarrow> int \<Rightarrow> farray \<Rightarrow> farray" where
  "zgemv_kernel_4x4_scalar_body c a0 a1 a2 a3 x i y =
     (if same_conj c then
        (let y = y(i := y i + (a0 i * x 0 - a0 (i + 1) * x 1));
             y = y(i + 1 := y (i + 1) + (a0 i * x 1 + a0 (i + 1) * x 0));
             y = y(i := y i + (a1 i * x 2 - a1 (i + 1) * x 3));
             y = y(i + 1 := y (i + 1) + (a1 i * x 3 + a1 (i + 1) * x 2));
             y = y(i := y i + (a2 i * x 4 - a2 (i + 1) * x 5));
             y = y(i + 1 := y (i + 1) + (a2 i * x 5 + a2 (i + 1) * x 4));
             y = y(i := y i + (a3 i * x 6 - a3 (i + 1) * x 7));
             y = y(i + 1 := y (i + 1) + (a3 i * x 7 + a3 (i + 1) * x 6))
         in y)
      else
        (let y = y(i := y i + (a0 i * x 0 + a0 (i + 1) * x 1));
             y = y(i + 1 := y (i + 1) + (a0 i * x 1 - a0 (i + 1) * x 0));
             y = y(i := y i + (a1 i * x 2 + a1 (i + 1) * x 3));
             y = y(i + 1 := y (i + 1) + (a1 i * x 3 - a1 (i + 1) * x 2));
             y = y(i := y i + (a2 i * x 4 + a2 (i + 1) * x 5));
             y = y(i + 1 := y (i + 1) + (a2 i * x 5 - a2 (i + 1) * x 4));
             y = y(i := y i + (a3 i * x 6 + a3 (i + 1) * x 7));
             y = y(i + 1 := y (i + 1) + (a3 i * x 7 - a3 (i + 1) * x 6))
         in y))"

function zgemv_kernel_4x4_scalar_loop ::
  "cfg \<Rightarrow> int \<Rightarrow> farray \<Rightarrow> farray \<Rightarrow> farray \<Rightarrow> farray \<Rightarrow> farray \<Rightarrow> int \<Rightarrow> farray \<Rightarrow> farray" where
  "zgemv_kernel_4x4_scalar_loop c n a0 a1 a2 a3 x i y =
     (if i < 2 * n
      then zgemv_kernel_4x4_scalar_loop c n a0 a1 a2 a3 x (i + 2)
             (zgemv_kernel_4x4_scalar_body c a0 a1 a2 a3 x i y)
      else y)"
  by pat_completeness auto
termination
  by (relation "measure (\<lambda>(c, n, a0, a1, a2, a3, x, i, y). nat (2 * n - i))") auto

declare zgemv_kernel_4x4_scalar_loop.simps [simp del]

definition zgemv_kernel_4x4_scalar ::
  "cfg \<Rightarrow> int \<Rightarrow> (nat \<Rightarrow> farray) \<Rightarrow> farray \<Rightarrow> farray \<Rightarrow> farray" where
  "zgemv_kernel_4x4_scalar c n ap x y =
     (let a0 = ap 0;
          a1 = ap 1;
          a2 = ap 2;
          a3 = ap 3
      in zgemv_kernel_4x4_scalar_loop c n a0 a1 a2 a3 x 0 y)"

subsection \<open>zgemv_kernel_4x2 and zgemv_kernel_4x1, vector variants (lines 175-232, 265-315)\<close>

definition zgemv_kernel_4x2_body ::
  "cfg \<Rightarrow> farray \<Rightarrow> farray \<Rightarrow> vec2 \<Rightarrow> vec2 \<Rightarrow> vec2 \<Rightarrow> vec2 \<Rightarrow> int \<Rightarrow> farray \<Rightarrow> farray" where
  "zgemv_kernel_4x2_body c a0 a1 vx0_r vx0_i vx1_r vx1_i i y =
     (let vresult_r = (y i, y (i + 2));
          vresult_i = (y (i + 1), y (i + 3));
          va0_r = (a0 i, a0 (i + 2));
          va0_i = (a0 (i + 1), a0 (i + 3));
          va1_r = (a1 i, a1 (i + 2));
          va1_i = (a1 (i + 1), a1 (i + 3));
          (vresult_r, vresult_i) =
            (if same_conj c then
               (let vresult_r = vsub (vmul va0_r vx0_r) (vsub (vmul va0_i vx0_i) vresult_r);
                    vresult_i = vadd (vadd vresult_i (vmul va0_r vx0_i)) (vmul va0_i vx0_r);
                    vresult_r = vsub (vmul va1_r vx1_r) (vsub (vmul va1_i vx1_i) vresult_r);
                    vresult_i = vadd (vadd vresult_i (vmul va1_r vx1_i)) (vmul va1_i vx1_r)
                in (vresult_r, vresult_i))
             else
               (let vresult_r = vadd (vadd vresult_r (vmul va0_r vx0_r)) (vmul va0_i vx0_i);
                    vresult_i = vsub (vmul va0_r vx0_i) (vsub (vmul va0_i vx0_r) vresult_i);
                    vresult_r = vadd (vadd vresult_r (vmul va1_r vx1_r)) (vmul va1_i vx1_i);
                    vresult_i = vsub (vmul va1_r vx1_i) (vsub (vmul va1_i vx1_r) vresult_i)
                in (vresult_r, vresult_i)));
          y = y(i := fst vresult_r);
          y = y(i + 1 := fst vresult_i);
          y = y(i + 2 := snd vresult_r);
          y = y(i + 3 := snd vresult_i)
      in y)"

function zgemv_kernel_4x2_loop ::
  "cfg \<Rightarrow> int \<Rightarrow> farray \<Rightarrow> farray \<Rightarrow> vec2 \<Rightarrow> vec2 \<Rightarrow> vec2 \<Rightarrow> vec2 \<Rightarrow> int \<Rightarrow> farray \<Rightarrow> farray" where
  "zgemv_kernel_4x2_loop c n a0 a1 vx0_r vx0_i vx1_r vx1_i i y =
     (if i < 2 * n
      then zgemv_kernel_4x2_loop c n a0 a1 vx0_r vx0_i vx1_r vx1_i (i + 4)
             (zgemv_kernel_4x2_body c a0 a1 vx0_r vx0_i vx1_r vx1_i i y)
      else y)"
  by pat_completeness auto
termination
  by (relation "measure (\<lambda>(c, n, a0, a1, vx0_r, vx0_i, vx1_r, vx1_i, i, y). nat (2 * n - i))")
    auto

declare zgemv_kernel_4x2_loop.simps [simp del]

definition zgemv_kernel_4x2 :: "cfg \<Rightarrow> int \<Rightarrow> (nat \<Rightarrow> farray) \<Rightarrow> farray \<Rightarrow> farray \<Rightarrow> farray" where
  "zgemv_kernel_4x2 c n ap x y =
     (let a0 = ap 0;
          a1 = ap 1;
          vx0_r = (x 0, x 0);
          vx0_i = (x 1, x 1);
          vx1_r = (x 2, x 2);
          vx1_i = (x 3, x 3)
      in zgemv_kernel_4x2_loop c n a0 a1 vx0_r vx0_i vx1_r vx1_i 0 y)"

definition zgemv_kernel_4x1_body ::
  "cfg \<Rightarrow> farray \<Rightarrow> vec2 \<Rightarrow> vec2 \<Rightarrow> int \<Rightarrow> farray \<Rightarrow> farray" where
  "zgemv_kernel_4x1_body c a0 vx_r vx_i i y =
     (let vresult_r = (y i, y (i + 2));
          vresult_i = (y (i + 1), y (i + 3));
          va0_r = (a0 i, a0 (i + 2));
          va0_i = (a0 (i + 1), a0 (i + 3));
          (vresult_r, vresult_i) =
            (if same_conj c then
               (let vresult_r = vsub (vmul va0_r vx_r) (vsub (vmul va0_i vx_i) vresult_r);
                    vresult_i = vadd (vadd vresult_i (vmul va0_r vx_i)) (vmul va0_i vx_r)
                in (vresult_r, vresult_i))
             else
               (let vresult_r = vadd (vadd vresult_r (vmul va0_r vx_r)) (vmul va0_i vx_i);
                    vresult_i = vsub (vmul va0_r vx_i) (vsub (vmul va0_i vx_r) vresult_i)
                in (vresult_r, vresult_i)));
          y = y(i := fst vresult_r);
          y = y(i + 1 := fst vresult_i);
          y = y(i + 2 := snd vresult_r);
          y = y(i + 3 := snd vresult_i)
      in y)"

function zgemv_kernel_4x1_loop ::
  "cfg \<Rightarrow> int \<Rightarrow> farray \<Rightarrow> vec2 \<Rightarrow> vec2 \<Rightarrow> int \<Rightarrow> farray \<Rightarrow> farray" where
  "zgemv_kernel_4x1_loop c n a0 vx_r vx_i i y =
     (if i < 2 * n
      then zgemv_kernel_4x1_loop c n a0 vx_r vx_i (i + 4)
             (zgemv_kernel_4x1_body c a0 vx_r vx_i i y)
      else y)"
  by pat_completeness auto
termination
  by (relation "measure (\<lambda>(c, n, a0, vx_r, vx_i, i, y). nat (2 * n - i))") auto

declare zgemv_kernel_4x1_loop.simps [simp del]

definition zgemv_kernel_4x1 :: "cfg \<Rightarrow> int \<Rightarrow> farray \<Rightarrow> farray \<Rightarrow> farray \<Rightarrow> farray" where
  "zgemv_kernel_4x1 c n ap x y =
     (let a0 = ap;
          vx_r = (x 0, x 0);
          vx_i = (x 1, x 1)
      in zgemv_kernel_4x1_loop c n a0 vx_r vx_i 0 y)"

subsection \<open>add_y, vector variant (lines 343-433)\<close>

text \<open>
  \<^verbatim>\<open>src\<close> and \<^verbatim>\<open>dest\<close> are advanced by the loop: they are offsets into the source array
  and the destination array. The source has one loop for \<^verbatim>\<open>inc_dest != 2\<close> and a second
  one with the constant 2 written in place of \<^verbatim>\<open>inc_dest\<close>; both are \<open>add_y_loop\<close>.
\<close>

function add_y_loop ::
  "cfg \<Rightarrow> int \<Rightarrow> farray \<Rightarrow> int \<Rightarrow> vec2 \<Rightarrow> vec2 \<Rightarrow> int \<Rightarrow> int \<Rightarrow> int \<Rightarrow> farray \<Rightarrow> farray" where
  "add_y_loop c n src_arr inc_dest valpha_r valpha_i i src dest dest_arr =
     (if i < n
      then
        (let vsrc_r = (src_arr src, src_arr (src + 2));
             vsrc_i = (src_arr (src + 1), src_arr (src + 3));
             (vresult_r, vresult_i) =
               (if \<not> XCONJ c then
                  (let vresult_r = vmul vsrc_r valpha_r;
                       vresult_r = vsub vresult_r (vmul vsrc_i valpha_i);
                       vresult_i = vadd (vmul vsrc_r valpha_i) (vmul vsrc_i valpha_r)
                   in (vresult_r, vresult_i))
                else
                  (let vresult_r = vadd (vmul vsrc_r valpha_r) (vmul vsrc_i valpha_i);
                       vresult_i = vmul vsrc_r valpha_i;
                       vresult_i = vsub vresult_i (vmul vsrc_i valpha_r)
                   in (vresult_r, vresult_i)));
             dest_arr = dest_arr(dest := dest_arr dest + fst vresult_r);
             dest_arr = dest_arr(dest + 1 := dest_arr (dest + 1) + fst vresult_i);
             dest_arr = dest_arr(dest + inc_dest := dest_arr (dest + inc_dest) + snd vresult_r);
             dest_arr = dest_arr(dest + inc_dest + 1 :=
                          dest_arr (dest + inc_dest + 1) + snd vresult_i)
         in add_y_loop c n src_arr inc_dest valpha_r valpha_i (i + 2) (src + 4)
              (dest + 2 * inc_dest) dest_arr)
      else dest_arr)"
  by pat_completeness auto
termination
  by (relation "measure (\<lambda>(c, n, src_arr, inc_dest, valpha_r, valpha_i, i, src, dest, dest_arr).
        nat (n - i))") auto

declare add_y_loop.simps [simp del]

definition add_y ::
  "cfg \<Rightarrow> int \<Rightarrow> farray \<Rightarrow> farray \<Rightarrow> int \<Rightarrow> int \<Rightarrow> real \<Rightarrow> real \<Rightarrow> farray" where
  "add_y c n src dest_arr dest inc_dest alpha_r alpha_i =
     (let valpha_r = (alpha_r, alpha_r);
          valpha_i = (alpha_i, alpha_i)
      in if inc_dest \<noteq> 2
         then add_y_loop c n src inc_dest valpha_r valpha_i 0 0 dest dest_arr
         else add_y_loop c n src 2 valpha_r valpha_i 0 0 dest dest_arr)"

subsection \<open>CNAME, the GEMV driver (lines 512-917)\<close>

text \<open>
  The arrays \<open>A\<close>, \<open>X\<close>, \<open>Y\<close> and \<open>buffer\<close> are the objects the pointer arguments
  \<^verbatim>\<open>a\<close>, \<^verbatim>\<open>x\<close>, \<^verbatim>\<open>y\<close> and \<^verbatim>\<open>buffer\<close> point to; the pointer variables of the source
  (\<^verbatim>\<open>a\<close>, \<^verbatim>\<open>a_ptr\<close>, \<^verbatim>\<open>ap[0..3]\<close>, \<^verbatim>\<open>x_ptr\<close>, \<^verbatim>\<open>y_ptr\<close>) are offsets into them.
  \<^verbatim>\<open>xbuffer\<close> is the local array of eight doubles; every entry is written before it is
  read.

  \<open>cmul_re\<close> and \<open>cmul_im\<close> are the two lines of the source's
  \<^verbatim>\<open>#if (!CONJ && !XCONJ) || (CONJ && XCONJ)\<close> blocks:
  \<^verbatim>\<open>a[0] * x[0] - a[1] * x[1]\<close> and \<^verbatim>\<open>a[0] * x[1] + a[1] * x[0]\<close>, with the signs
  exchanged in the \<^verbatim>\<open>#else\<close> branch. \<^verbatim>\<open>memset(ybuffer, 0, NB * 16)\<close> zeroes
  \<^verbatim>\<open>NB * 16\<close> bytes, that is \<^verbatim>\<open>NB * 16 / 8\<close> doubles.
\<close>

definition NBMAX :: int where
  "NBMAX = 1024"

definition cmul_re :: "cfg \<Rightarrow> real \<Rightarrow> real \<Rightarrow> real \<Rightarrow> real \<Rightarrow> real" where
  "cmul_re c ar ai xr xi = (if same_conj c then ar * xr - ai * xi else ar * xr + ai * xi)"

definition cmul_im :: "cfg \<Rightarrow> real \<Rightarrow> real \<Rightarrow> real \<Rightarrow> real \<Rightarrow> real" where
  "cmul_im c ar ai xr xi = (if same_conj c then ar * xi + ai * xr else ar * xi - ai * xr)"

definition memset_FLOAT :: "farray \<Rightarrow> int \<Rightarrow> farray" where
  "memset_FLOAT buf nbytes = (\<lambda>i. if 0 \<le> i \<and> i < nbytes div 8 then 0 else buf i)"

text \<open>The loops over groups of four columns, for \<^verbatim>\<open>inc_x == 2\<close> and for any other stride,
  and the loop over the remaining \<^verbatim>\<open>n2\<close> columns for the other strides.\<close>

function CNAME_n1_loop ::
  "cfg \<Rightarrow> int \<Rightarrow> farray \<Rightarrow> farray \<Rightarrow> int \<Rightarrow> int \<Rightarrow> int \<Rightarrow> (nat \<Rightarrow> int) \<Rightarrow> int \<Rightarrow> int \<Rightarrow> farray
     \<Rightarrow> (nat \<Rightarrow> int) \<times> int \<times> int \<times> farray" where
  "CNAME_n1_loop c NB A X lda4 n1 i ap a_ptr x_ptr ybuffer =
     (if i < n1
      then
        (let ybuffer = zgemv_kernel_4x4 c NB (\<lambda>j. ptr_add A (ap j)) (ptr_add X x_ptr) ybuffer;
             ap = ap(0 := ap 0 + lda4);
             ap = ap(1 := ap 1 + lda4);
             ap = ap(2 := ap 2 + lda4);
             ap = ap(3 := ap 3 + lda4);
             a_ptr = a_ptr + lda4;
             x_ptr = x_ptr + 8
         in CNAME_n1_loop c NB A X lda4 n1 (i + 1) ap a_ptr x_ptr ybuffer)
      else (ap, a_ptr, x_ptr, ybuffer))"
  by pat_completeness auto
termination
  by (relation "measure (\<lambda>(c, NB, A, X, lda4, n1, i, ap, a_ptr, x_ptr, ybuffer). nat (n1 - i))")
    auto

declare CNAME_n1_loop.simps [simp del]

function CNAME_n1_loop_strided ::
  "cfg \<Rightarrow> int \<Rightarrow> farray \<Rightarrow> farray \<Rightarrow> int \<Rightarrow> int \<Rightarrow> int \<Rightarrow> int \<Rightarrow> (nat \<Rightarrow> int) \<Rightarrow> int \<Rightarrow> int
     \<Rightarrow> farray \<Rightarrow> farray \<Rightarrow> (nat \<Rightarrow> int) \<times> int \<times> int \<times> farray \<times> farray" where
  "CNAME_n1_loop_strided c NB A X lda4 inc_x n1 i ap a_ptr x_ptr xbuffer ybuffer =
     (if i < n1
      then
        (let xbuffer = xbuffer(0 := X x_ptr);
             xbuffer = xbuffer(1 := X (x_ptr + 1));
             x_ptr = x_ptr + inc_x;
             xbuffer = xbuffer(2 := X x_ptr);
             xbuffer = xbuffer(3 := X (x_ptr + 1));
             x_ptr = x_ptr + inc_x;
             xbuffer = xbuffer(4 := X x_ptr);
             xbuffer = xbuffer(5 := X (x_ptr + 1));
             x_ptr = x_ptr + inc_x;
             xbuffer = xbuffer(6 := X x_ptr);
             xbuffer = xbuffer(7 := X (x_ptr + 1));
             x_ptr = x_ptr + inc_x;
             ybuffer = zgemv_kernel_4x4 c NB (\<lambda>j. ptr_add A (ap j)) xbuffer ybuffer;
             ap = ap(0 := ap 0 + lda4);
             ap = ap(1 := ap 1 + lda4);
             ap = ap(2 := ap 2 + lda4);
             ap = ap(3 := ap 3 + lda4);
             a_ptr = a_ptr + lda4
         in CNAME_n1_loop_strided c NB A X lda4 inc_x n1 (i + 1) ap a_ptr x_ptr xbuffer ybuffer)
      else (ap, a_ptr, x_ptr, xbuffer, ybuffer))"
  by pat_completeness auto
termination
  by (relation "measure (\<lambda>(c, NB, A, X, lda4, inc_x, n1, i, ap, a_ptr, x_ptr, xbuffer, ybuffer).
        nat (n1 - i))") auto

declare CNAME_n1_loop_strided.simps [simp del]

function CNAME_n2_loop_strided ::
  "cfg \<Rightarrow> int \<Rightarrow> farray \<Rightarrow> farray \<Rightarrow> int \<Rightarrow> int \<Rightarrow> int \<Rightarrow> int \<Rightarrow> int \<Rightarrow> int
     \<Rightarrow> farray \<Rightarrow> farray \<Rightarrow> int \<times> int \<times> farray \<times> farray" where
  "CNAME_n2_loop_strided c NB A X lda inc_x n2 i a_ptr x_ptr xbuffer ybuffer =
     (if i < n2
      then
        (let xbuffer = xbuffer(0 := X x_ptr);
             xbuffer = xbuffer(1 := X (x_ptr + 1));
             x_ptr = x_ptr + inc_x;
             ybuffer = zgemv_kernel_4x1 c NB (ptr_add A a_ptr) xbuffer ybuffer;
             a_ptr = a_ptr + 1 * lda
         in CNAME_n2_loop_strided c NB A X lda inc_x n2 (i + 1) a_ptr x_ptr xbuffer ybuffer)
      else (a_ptr, x_ptr, xbuffer, ybuffer))"
  by pat_completeness auto
termination
  by (relation "measure (\<lambda>(c, NB, A, X, lda, inc_x, n2, i, a_ptr, x_ptr, xbuffer, ybuffer).
        nat (n2 - i))") auto

declare CNAME_n2_loop_strided.simps [simp del]

text \<open>
  The body of the \<^verbatim>\<open>while (NB == NBMAX)\<close> loop after \<^verbatim>\<open>NB\<close> is settled, on the state
  \<open>(Y, xbuffer, ybuffer)\<close>.
\<close>

definition CNAME_block ::
  "cfg \<Rightarrow> int \<Rightarrow> int \<Rightarrow> int \<Rightarrow> real \<Rightarrow> real \<Rightarrow> farray \<Rightarrow> int \<Rightarrow> int \<Rightarrow> int \<Rightarrow> farray \<Rightarrow> int
     \<Rightarrow> int \<Rightarrow> int \<Rightarrow> farray \<times> farray \<times> farray \<Rightarrow> farray \<times> farray \<times> farray" where
  "CNAME_block c NB n1 n2 alpha_r alpha_i A a lda lda4 X inc_x y_ptr inc_y st =
     (let (Y, xbuffer, ybuffer) = st;
          a_ptr = a;
          ap = (\<lambda>j. 0)(0 := a_ptr);
          ap = ap(1 := a_ptr + lda);
          ap = ap(2 := ap 1 + lda);
          ap = ap(3 := ap 2 + lda);
          x_ptr = 0;
          ybuffer = memset_FLOAT ybuffer (NB * 16);
          (xbuffer, ybuffer) =
            (if inc_x = 2 then
               (let (ap, a_ptr, x_ptr, ybuffer) =
                      CNAME_n1_loop c NB A X lda4 n1 0 ap a_ptr x_ptr ybuffer;
                    (a_ptr, x_ptr, ybuffer) =
                      (if n2 AND 2 \<noteq> 0
                       then (a_ptr + 2 * lda, x_ptr + 4,
                             zgemv_kernel_4x2 c NB (\<lambda>j. ptr_add A (ap j)) (ptr_add X x_ptr)
                               ybuffer)
                       else (a_ptr, x_ptr, ybuffer));
                    (a_ptr, x_ptr, ybuffer) =
                      (if n2 AND 1 \<noteq> 0
                       then (a_ptr + lda, x_ptr + 2,
                             zgemv_kernel_4x1 c NB (ptr_add A a_ptr) (ptr_add X x_ptr) ybuffer)
                       else (a_ptr, x_ptr, ybuffer))
                in (xbuffer, ybuffer))
             else
               (let (ap, a_ptr, x_ptr, xbuffer, ybuffer) =
                      CNAME_n1_loop_strided c NB A X lda4 inc_x n1 0 ap a_ptr x_ptr xbuffer
                        ybuffer;
                    (a_ptr, x_ptr, xbuffer, ybuffer) =
                      CNAME_n2_loop_strided c NB A X lda inc_x n2 0 a_ptr x_ptr xbuffer ybuffer
                in (xbuffer, ybuffer)));
          Y = add_y c NB ybuffer Y y_ptr inc_y alpha_r alpha_i
      in (Y, xbuffer, ybuffer))"

text \<open>
  The \<^verbatim>\<open>while (NB == NBMAX)\<close> loop. \<^verbatim>\<open>m2\<close> is \<^verbatim>\<open>(m % NBMAX) - (m % 4)\<close>, computed
  from \<^verbatim>\<open>m\<close>, which the function never changes; \<^verbatim>\<open>m\<close> is at least 1 here, so C's
  \<^verbatim>\<open>%\<close> and \<^verbatim>\<open>/\<close> agree with \<open>mod\<close> and \<open>div\<close>. The loop ends because
  \<^verbatim>\<open>m2\<close> is below \<^verbatim>\<open>NBMAX\<close>.
\<close>

function CNAME_blocks ::
  "cfg \<Rightarrow> int \<Rightarrow> int \<Rightarrow> int \<Rightarrow> real \<Rightarrow> real \<Rightarrow> farray \<Rightarrow> int \<Rightarrow> int \<Rightarrow> farray \<Rightarrow> int \<Rightarrow> int
     \<Rightarrow> int \<Rightarrow> int \<Rightarrow> int \<Rightarrow> int \<Rightarrow> farray \<times> farray \<times> farray
     \<Rightarrow> int \<times> int \<times> farray \<times> farray \<times> farray" where
  "CNAME_blocks c m n1 n2 alpha_r alpha_i A lda lda4 X inc_x inc_y NB m1 a y_ptr st =
     (if NB = NBMAX
      then
        (if m1 - NB < 0
         then
           (if (m mod NBMAX) - (m mod 4) = 0
            then (a, y_ptr, st)
            else CNAME_blocks c m n1 n2 alpha_r alpha_i A lda lda4 X inc_x inc_y
                   ((m mod NBMAX) - (m mod 4)) (m1 - NB)
                   (a + 2 * ((m mod NBMAX) - (m mod 4)))
                   (y_ptr + ((m mod NBMAX) - (m mod 4)) * inc_y)
                   (CNAME_block c ((m mod NBMAX) - (m mod 4)) n1 n2 alpha_r alpha_i A a lda lda4
                      X inc_x y_ptr inc_y st))
         else CNAME_blocks c m n1 n2 alpha_r alpha_i A lda lda4 X inc_x inc_y
                NB (m1 - NB) (a + 2 * NB) (y_ptr + NB * inc_y)
                (CNAME_block c NB n1 n2 alpha_r alpha_i A a lda lda4 X inc_x y_ptr inc_y st))
      else (a, y_ptr, st))"
  by pat_completeness auto
termination
proof (relation "measure (\<lambda>(c, m, n1, n2, alpha_r, alpha_i, A, lda, lda4, X, inc_x, inc_y, NB,
        m1, a, y_ptr, st). if NB = NBMAX then 1 + nat m1 else 0)", goal_cases)
  case 1
  show ?case
    by simp
next
  case (2 c m n1 n2 alpha_r alpha_i A lda lda4 X inc_x inc_y NB m1 a y_ptr st)
  have "m mod 1024 < 1024" and "0 \<le> m mod 4"
    by simp_all
  then have "m mod 1024 - m mod 4 \<noteq> 1024"
    by linarith
  with 2 show ?case
    by (simp add: NBMAX_def)
next
  case (3 c m n1 n2 alpha_r alpha_i A lda lda4 X inc_x inc_y NB m1 a y_ptr st)
  then show ?case
    by (simp add: NBMAX_def)
qed

declare CNAME_blocks.simps [simp del]

text \<open>
  The dot-product loops of the last \<^verbatim>\<open>m3 = m % 4\<close> rows. The \<open>pair\<close> loops take two
  columns per iteration up to \<^verbatim>\<open>n & -2\<close>; the other loops take one column and advance
  the pointers by the given steps.
\<close>

function CNAME_dot1_pair_loop ::
  "cfg \<Rightarrow> farray \<Rightarrow> farray \<Rightarrow> int \<Rightarrow> int \<Rightarrow> int \<Rightarrow> int \<Rightarrow> real \<Rightarrow> real
     \<Rightarrow> int \<times> int \<times> int \<times> real \<times> real" where
  "CNAME_dot1_pair_loop c A X bound i a_ptr x_ptr temp_r temp_i =
     (if i < bound
      then
        (let temp_r = temp_r + cmul_re c (A a_ptr) (A (a_ptr + 1)) (X x_ptr) (X (x_ptr + 1));
             temp_i = temp_i + cmul_im c (A a_ptr) (A (a_ptr + 1)) (X x_ptr) (X (x_ptr + 1));
             temp_r = temp_r
               + cmul_re c (A (a_ptr + 2)) (A (a_ptr + 3)) (X (x_ptr + 2)) (X (x_ptr + 3));
             temp_i = temp_i
               + cmul_im c (A (a_ptr + 2)) (A (a_ptr + 3)) (X (x_ptr + 2)) (X (x_ptr + 3));
             a_ptr = a_ptr + 4;
             x_ptr = x_ptr + 4
         in CNAME_dot1_pair_loop c A X bound (i + 2) a_ptr x_ptr temp_r temp_i)
      else (i, a_ptr, x_ptr, temp_r, temp_i))"
  by pat_completeness auto
termination
  by (relation "measure (\<lambda>(c, A, X, bound, i, a_ptr, x_ptr, temp_r, temp_i). nat (bound - i))") auto

declare CNAME_dot1_pair_loop.simps [simp del]

function CNAME_dot1_loop ::
  "cfg \<Rightarrow> farray \<Rightarrow> farray \<Rightarrow> int \<Rightarrow> int \<Rightarrow> int \<Rightarrow> int \<Rightarrow> int \<Rightarrow> int \<Rightarrow> real \<Rightarrow> real
     \<Rightarrow> real \<times> real" where
  "CNAME_dot1_loop c A X n a_step x_step i a_ptr x_ptr temp_r temp_i =
     (if i < n
      then
        (let temp_r = temp_r + cmul_re c (A a_ptr) (A (a_ptr + 1)) (X x_ptr) (X (x_ptr + 1));
             temp_i = temp_i + cmul_im c (A a_ptr) (A (a_ptr + 1)) (X x_ptr) (X (x_ptr + 1));
             a_ptr = a_ptr + a_step;
             x_ptr = x_ptr + x_step
         in CNAME_dot1_loop c A X n a_step x_step (i + 1) a_ptr x_ptr temp_r temp_i)
      else (temp_r, temp_i))"
  by pat_completeness auto
termination
  by (relation "measure (\<lambda>(c, A, X, n, a_step, x_step, i, a_ptr, x_ptr, temp_r, temp_i).
        nat (n - i))") auto

declare CNAME_dot1_loop.simps [simp del]

function CNAME_dot2_pair_loop ::
  "cfg \<Rightarrow> farray \<Rightarrow> farray \<Rightarrow> int \<Rightarrow> int \<Rightarrow> int \<Rightarrow> int \<Rightarrow> real \<Rightarrow> real \<Rightarrow> real \<Rightarrow> real
     \<Rightarrow> int \<times> int \<times> int \<times> real \<times> real \<times> real \<times> real" where
  "CNAME_dot2_pair_loop c A X bound i a_ptr x_ptr temp_r0 temp_i0 temp_r1 temp_i1 =
     (if i < bound
      then
        (let temp_r0 = temp_r0
               + cmul_re c (A a_ptr) (A (a_ptr + 1)) (X x_ptr) (X (x_ptr + 1));
             temp_i0 = temp_i0
               + cmul_im c (A a_ptr) (A (a_ptr + 1)) (X x_ptr) (X (x_ptr + 1));
             temp_r1 = temp_r1
               + cmul_re c (A (a_ptr + 2)) (A (a_ptr + 3)) (X x_ptr) (X (x_ptr + 1));
             temp_i1 = temp_i1
               + cmul_im c (A (a_ptr + 2)) (A (a_ptr + 3)) (X x_ptr) (X (x_ptr + 1));
             temp_r0 = temp_r0
               + cmul_re c (A (a_ptr + 4)) (A (a_ptr + 5)) (X (x_ptr + 2)) (X (x_ptr + 3));
             temp_i0 = temp_i0
               + cmul_im c (A (a_ptr + 4)) (A (a_ptr + 5)) (X (x_ptr + 2)) (X (x_ptr + 3));
             temp_r1 = temp_r1
               + cmul_re c (A (a_ptr + 6)) (A (a_ptr + 7)) (X (x_ptr + 2)) (X (x_ptr + 3));
             temp_i1 = temp_i1
               + cmul_im c (A (a_ptr + 6)) (A (a_ptr + 7)) (X (x_ptr + 2)) (X (x_ptr + 3));
             a_ptr = a_ptr + 8;
             x_ptr = x_ptr + 4
         in CNAME_dot2_pair_loop c A X bound (i + 2) a_ptr x_ptr temp_r0 temp_i0 temp_r1 temp_i1)
      else (i, a_ptr, x_ptr, temp_r0, temp_i0, temp_r1, temp_i1))"
  by pat_completeness auto
termination
  by (relation "measure (\<lambda>(c, A, X, bound, i, a_ptr, x_ptr, temp_r0, temp_i0, temp_r1, temp_i1).
        nat (bound - i))") auto

declare CNAME_dot2_pair_loop.simps [simp del]

function CNAME_dot2_loop ::
  "cfg \<Rightarrow> farray \<Rightarrow> farray \<Rightarrow> int \<Rightarrow> int \<Rightarrow> int \<Rightarrow> int \<Rightarrow> int \<Rightarrow> int \<Rightarrow> real \<Rightarrow> real
     \<Rightarrow> real \<Rightarrow> real \<Rightarrow> real \<times> real \<times> real \<times> real" where
  "CNAME_dot2_loop c A X n a_step x_step i a_ptr x_ptr temp_r0 temp_i0 temp_r1 temp_i1 =
     (if i < n
      then
        (let temp_r0 = temp_r0
               + cmul_re c (A a_ptr) (A (a_ptr + 1)) (X x_ptr) (X (x_ptr + 1));
             temp_i0 = temp_i0
               + cmul_im c (A a_ptr) (A (a_ptr + 1)) (X x_ptr) (X (x_ptr + 1));
             temp_r1 = temp_r1
               + cmul_re c (A (a_ptr + 2)) (A (a_ptr + 3)) (X x_ptr) (X (x_ptr + 1));
             temp_i1 = temp_i1
               + cmul_im c (A (a_ptr + 2)) (A (a_ptr + 3)) (X x_ptr) (X (x_ptr + 1));
             a_ptr = a_ptr + a_step;
             x_ptr = x_ptr + x_step
         in CNAME_dot2_loop c A X n a_step x_step (i + 1) a_ptr x_ptr
              temp_r0 temp_i0 temp_r1 temp_i1)
      else (temp_r0, temp_i0, temp_r1, temp_i1))"
  by pat_completeness auto
termination
  by (relation "measure (\<lambda>(c, A, X, n, a_step, x_step, i, a_ptr, x_ptr, temp_r0, temp_i0,
        temp_r1, temp_i1). nat (n - i))") auto

declare CNAME_dot2_loop.simps [simp del]

function CNAME_dot3_loop ::
  "cfg \<Rightarrow> farray \<Rightarrow> farray \<Rightarrow> int \<Rightarrow> int \<Rightarrow> int \<Rightarrow> int \<Rightarrow> int \<Rightarrow> int \<Rightarrow> real \<Rightarrow> real
     \<Rightarrow> real \<Rightarrow> real \<Rightarrow> real \<Rightarrow> real \<Rightarrow> real \<times> real \<times> real \<times> real \<times> real \<times> real" where
  "CNAME_dot3_loop c A X n a_step x_step i a_ptr x_ptr temp_r0 temp_i0 temp_r1 temp_i1
       temp_r2 temp_i2 =
     (if i < n
      then
        (let temp_r0 = temp_r0
               + cmul_re c (A a_ptr) (A (a_ptr + 1)) (X x_ptr) (X (x_ptr + 1));
             temp_i0 = temp_i0
               + cmul_im c (A a_ptr) (A (a_ptr + 1)) (X x_ptr) (X (x_ptr + 1));
             temp_r1 = temp_r1
               + cmul_re c (A (a_ptr + 2)) (A (a_ptr + 3)) (X x_ptr) (X (x_ptr + 1));
             temp_i1 = temp_i1
               + cmul_im c (A (a_ptr + 2)) (A (a_ptr + 3)) (X x_ptr) (X (x_ptr + 1));
             temp_r2 = temp_r2
               + cmul_re c (A (a_ptr + 4)) (A (a_ptr + 5)) (X x_ptr) (X (x_ptr + 1));
             temp_i2 = temp_i2
               + cmul_im c (A (a_ptr + 4)) (A (a_ptr + 5)) (X x_ptr) (X (x_ptr + 1));
             a_ptr = a_ptr + a_step;
             x_ptr = x_ptr + x_step
         in CNAME_dot3_loop c A X n a_step x_step (i + 1) a_ptr x_ptr
              temp_r0 temp_i0 temp_r1 temp_i1 temp_r2 temp_i2)
      else (temp_r0, temp_i0, temp_r1, temp_i1, temp_r2, temp_i2))"
  by pat_completeness auto
termination
  by (relation "measure (\<lambda>(c, A, X, n, a_step, x_step, i, a_ptr, x_ptr, temp_r0, temp_i0,
        temp_r1, temp_i1, temp_r2, temp_i2). nat (n - i))") auto

declare CNAME_dot3_loop.simps [simp del]

text \<open>The final update of one complex entry of \<^verbatim>\<open>y\<close>, under \<^verbatim>\<open>#if !defined(XCONJ)\<close>.\<close>

definition CNAME_store ::
  "cfg \<Rightarrow> real \<Rightarrow> real \<Rightarrow> real \<Rightarrow> real \<Rightarrow> int \<Rightarrow> farray \<Rightarrow> farray" where
  "CNAME_store c alpha_r alpha_i temp_r temp_i y_ptr Y =
     (if \<not> XCONJ c then
        (let Y = Y(y_ptr := Y y_ptr + (alpha_r * temp_r - alpha_i * temp_i));
             Y = Y(y_ptr + 1 := Y (y_ptr + 1) + (alpha_r * temp_i + alpha_i * temp_r))
         in Y)
      else
        (let Y = Y(y_ptr := Y y_ptr + (alpha_r * temp_r + alpha_i * temp_i));
             Y = Y(y_ptr + 1 := Y (y_ptr + 1) - (alpha_r * temp_i - alpha_i * temp_r))
         in Y))"

definition CNAME_m3_1 ::
  "cfg \<Rightarrow> int \<Rightarrow> real \<Rightarrow> real \<Rightarrow> farray \<Rightarrow> int \<Rightarrow> int \<Rightarrow> farray \<Rightarrow> int \<Rightarrow> int \<Rightarrow> farray
     \<Rightarrow> farray" where
  "CNAME_m3_1 c n alpha_r alpha_i A a lda X inc_x y_ptr Y =
     (let a_ptr = a;
          x_ptr = 0;
          temp_r = 0;
          temp_i = 0;
          (temp_r, temp_i) =
            (if lda = 2 \<and> inc_x = 2 then
               (let (i, a_ptr, x_ptr, temp_r, temp_i) =
                      CNAME_dot1_pair_loop c A X (n AND - 2) 0 a_ptr x_ptr temp_r temp_i
                in CNAME_dot1_loop c A X n 2 2 i a_ptr x_ptr temp_r temp_i)
             else CNAME_dot1_loop c A X n lda inc_x 0 a_ptr x_ptr temp_r temp_i)
      in CNAME_store c alpha_r alpha_i temp_r temp_i y_ptr Y)"

definition CNAME_m3_2 ::
  "cfg \<Rightarrow> int \<Rightarrow> real \<Rightarrow> real \<Rightarrow> farray \<Rightarrow> int \<Rightarrow> int \<Rightarrow> farray \<Rightarrow> int \<Rightarrow> int \<Rightarrow> int
     \<Rightarrow> farray \<Rightarrow> farray" where
  "CNAME_m3_2 c n alpha_r alpha_i A a lda X inc_x y_ptr inc_y Y =
     (let a_ptr = a;
          x_ptr = 0;
          temp_r0 = 0;
          temp_i0 = 0;
          temp_r1 = 0;
          temp_i1 = 0;
          (temp_r0, temp_i0, temp_r1, temp_i1) =
            (if lda = 4 \<and> inc_x = 2 then
               (let (i, a_ptr, x_ptr, temp_r0, temp_i0, temp_r1, temp_i1) =
                      CNAME_dot2_pair_loop c A X (n AND - 2) 0 a_ptr x_ptr
                        temp_r0 temp_i0 temp_r1 temp_i1
                in CNAME_dot2_loop c A X n 4 2 i a_ptr x_ptr temp_r0 temp_i0 temp_r1 temp_i1)
             else CNAME_dot2_loop c A X n lda inc_x 0 a_ptr x_ptr
                    temp_r0 temp_i0 temp_r1 temp_i1);
          Y = CNAME_store c alpha_r alpha_i temp_r0 temp_i0 y_ptr Y;
          y_ptr = y_ptr + inc_y;
          Y = CNAME_store c alpha_r alpha_i temp_r1 temp_i1 y_ptr Y
      in Y)"

definition CNAME_m3_3 ::
  "cfg \<Rightarrow> int \<Rightarrow> real \<Rightarrow> real \<Rightarrow> farray \<Rightarrow> int \<Rightarrow> int \<Rightarrow> farray \<Rightarrow> int \<Rightarrow> int \<Rightarrow> int
     \<Rightarrow> farray \<Rightarrow> farray" where
  "CNAME_m3_3 c n alpha_r alpha_i A a lda X inc_x y_ptr inc_y Y =
     (let a_ptr = a;
          x_ptr = 0;
          temp_r0 = 0;
          temp_i0 = 0;
          temp_r1 = 0;
          temp_i1 = 0;
          temp_r2 = 0;
          temp_i2 = 0;
          (temp_r0, temp_i0, temp_r1, temp_i1, temp_r2, temp_i2) =
            (if lda = 6 \<and> inc_x = 2
             then CNAME_dot3_loop c A X n 6 2 0 a_ptr x_ptr
                    temp_r0 temp_i0 temp_r1 temp_i1 temp_r2 temp_i2
             else CNAME_dot3_loop c A X n lda inc_x 0 a_ptr x_ptr
                    temp_r0 temp_i0 temp_r1 temp_i1 temp_r2 temp_i2);
          Y = CNAME_store c alpha_r alpha_i temp_r0 temp_i0 y_ptr Y;
          y_ptr = y_ptr + inc_y;
          Y = CNAME_store c alpha_r alpha_i temp_r1 temp_i1 y_ptr Y;
          y_ptr = y_ptr + inc_y;
          Y = CNAME_store c alpha_r alpha_i temp_r2 temp_i2 y_ptr Y
      in Y)"

text \<open>The function returns its \<^verbatim>\<open>int\<close> result together with the final \<open>Y\<close> and
  \<open>buffer\<close>.\<close>

definition CNAME ::
  "cfg \<Rightarrow> int \<Rightarrow> int \<Rightarrow> int \<Rightarrow> real \<Rightarrow> real \<Rightarrow> farray \<Rightarrow> int \<Rightarrow> farray \<Rightarrow> int \<Rightarrow> farray \<Rightarrow> int
     \<Rightarrow> farray \<Rightarrow> int \<times> farray \<times> farray" where
  "CNAME c m n dummy1 alpha_r alpha_i A lda X inc_x Y inc_y buffer =
     (if m < 1 then (0, Y, buffer)
      else if n < 1 then (0, Y, buffer)
      else
        (let ybuffer = buffer;
             inc_x = inc_x * 2;
             inc_y = inc_y * 2;
             lda = lda * 2;
             lda4 = 4 * lda;
             n1 = n div 4;
             n2 = n mod 4;
             m3 = m mod 4;
             m1 = m - (m mod 4);
             y_ptr = 0;
             NB = NBMAX;
             (a, y_ptr, Y, xbuffer, ybuffer) =
               CNAME_blocks c m n1 n2 alpha_r alpha_i A lda lda4 X inc_x inc_y NB m1 0 y_ptr
                 (Y, \<lambda>i. 0, ybuffer)
         in if m3 = 0 then (0, Y, ybuffer)
            else if m3 = 1
            then (0, CNAME_m3_1 c n alpha_r alpha_i A a lda X inc_x y_ptr Y, ybuffer)
            else if m3 = 2
            then (0, CNAME_m3_2 c n alpha_r alpha_i A a lda X inc_x y_ptr inc_y Y, ybuffer)
            else if m3 = 3
            then (0, CNAME_m3_3 c n alpha_r alpha_i A a lda X inc_x y_ptr inc_y Y, ybuffer)
            else (0, Y, ybuffer)))"

subsection \<open>What the 4x4 kernel is to compute\<close>

text \<open>
  Entry \<open>k\<close> of an array of complex numbers stored as (real, imaginary) pairs, the
  product the configuration selects (\<open>a * x\<close>, or \<open>cnj a * x\<close> when exactly one of
  \<^verbatim>\<open>CONJ\<close> and \<^verbatim>\<open>XCONJ\<close> is defined), and the increment of \<^verbatim>\<open>y[p]\<close> by four columns.
\<close>

definition cplx_at :: "farray \<Rightarrow> int \<Rightarrow> complex" where
  "cplx_at v k = Complex (v (2 * k)) (v (2 * k + 1))"

definition cmul_cfg :: "cfg \<Rightarrow> complex \<Rightarrow> complex \<Rightarrow> complex" where
  "cmul_cfg c a b = (if same_conj c then a * b else cnj a * b)"

definition incr4 :: "cfg \<Rightarrow> farray \<Rightarrow> farray \<Rightarrow> farray \<Rightarrow> farray \<Rightarrow> farray \<Rightarrow> int \<Rightarrow> real" where
  "incr4 c a0 a1 a2 a3 x p =
     (if even p
      then cmul_re c (a0 p) (a0 (p + 1)) (x 0) (x 1)
         + cmul_re c (a1 p) (a1 (p + 1)) (x 2) (x 3)
         + cmul_re c (a2 p) (a2 (p + 1)) (x 4) (x 5)
         + cmul_re c (a3 p) (a3 (p + 1)) (x 6) (x 7)
      else cmul_im c (a0 (p - 1)) (a0 p) (x 0) (x 1)
         + cmul_im c (a1 (p - 1)) (a1 p) (x 2) (x 3)
         + cmul_im c (a2 (p - 1)) (a2 p) (x 4) (x 5)
         + cmul_im c (a3 (p - 1)) (a3 p) (x 6) (x 7))"

section \<open>The Model node\<close>

text \<open>
  The \<^verbatim>\<open>Model\<close> class (\<^verbatim>\<open>thinc.api.Model\<close>) is not among the sources: the notebook
  \<^verbatim>\<open>examples/01_intro_model_definition_methods.ipynb\<close> only imports and calls it. The
  definitions of this section are written from the specification's description of the
  node and of its operations.
\<close>

text \<open>Modelled from the spec: a tensor, as the list of its entries; its shape is its
  length.\<close>

type_synonym tensor = "real list"

text \<open>Modelled from the spec: the error taxonomy of section 7.\<close>

datatype error = DimensionNotFound | DimensionConflict | ParamNotFound | GradNotFound
  | ShapeMismatch

text \<open>
  Modelled from the spec: the node of section 3 (name, dimensions, parameters, gradients,
  child layers). A dimension is unset when the map has no value for its name.
\<close>

datatype Model =
  Model (name: string) (dims: "string \<rightharpoonup> nat") (params: "string \<rightharpoonup> tensor")
    (grads: "string \<rightharpoonup> tensor") (layers: "Model list")

text \<open>Modelled from the spec: \<^verbatim>\<open>get_dim(name)\<close> fails with \<^verbatim>\<open>DimensionNotFound\<close> if the
  name is unset or unknown.\<close>

definition get_dim :: "Model \<Rightarrow> string \<Rightarrow> error + nat" where
  "get_dim m d = (case dims m d of None \<Rightarrow> Inl DimensionNotFound | Some v \<Rightarrow> Inr v)"

text \<open>Modelled from the spec: \<^verbatim>\<open>set_dim(name, value)\<close> fails with \<^verbatim>\<open>DimensionConflict\<close> if
  the name is already set to a different concrete value, and succeeds if it is unset or
  equal.\<close>

definition set_dim :: "Model \<Rightarrow> string \<Rightarrow> nat \<Rightarrow> error + Model" where
  "set_dim m d v =
     (case dims m d of
        Some w \<Rightarrow> if w \<noteq> v then Inl DimensionConflict else Inr m
      | None \<Rightarrow> Inr (Model (name m) ((dims m)(d \<mapsto> v)) (params m) (grads m) (layers m)))"

text \<open>Modelled from the spec: \<^verbatim>\<open>get_param\<close> fails with \<^verbatim>\<open>ParamNotFound\<close> if read before
  set; \<^verbatim>\<open>set_param\<close> replaces the stored tensor without a shape check.\<close>

definition get_param :: "Model \<Rightarrow> string \<Rightarrow> error + tensor" where
  "get_param m p = (case params m p of None \<Rightarrow> Inl ParamNotFound | Some t \<Rightarrow> Inr t)"

definition set_param :: "Model \<Rightarrow> string \<Rightarrow> tensor \<Rightarrow> error + Model" where
  "set_param m p t = Inr (Model (name m) (dims m) ((params m)(p \<mapsto> t)) (grads m) (layers m))"


text \<open>Modelled from the spec: \<^verbatim>\<open>inc_grad(name, delta)\<close> adds \<^verbatim>\<open>delta\<close> elementwise into
  the stored gradient, allocating a zero gradient of the parameter's shape on first use
  (which reads the parameter, so it fails with \<^verbatim>\<open>ParamNotFound\<close> when there is none).\<close>

definition inc_grad :: "Model \<Rightarrow> string \<Rightarrow> tensor \<Rightarrow> error + Model" where
  "inc_grad m p delta =
     (case grads m p of
        Some g \<Rightarrow>
          Inr (Model (name m) (dims m) (params m) ((grads m)(p \<mapsto> map2 (+) g delta)) (layers m))
      | None \<Rightarrow>
          (case params m p of
             None \<Rightarrow> Inl ParamNotFound
           | Some t \<Rightarrow>
               Inr (Model (name m) (dims m) (params m)
                     ((grads m)(p \<mapsto> map2 (+) (replicate (length t) 0) delta)) (layers m))))"

text \<open>Modelled from the spec: the gradient of a parameter as \<^verbatim>\<open>finish_update\<close> reads it:
  the stored gradient, or, when none has been allocated yet, the zero gradient of the
  parameter's shape (the one \<^verbatim>\<open>inc_grad\<close> allocates on first use).\<close>

definition grad_or_zero :: "tensor \<Rightarrow> tensor option \<Rightarrow> tensor" where
  "grad_or_zero t stored = (case stored of None \<Rightarrow> replicate (length t) 0 | Some g \<Rightarrow> g)"

text \<open>Modelled from the spec: \<^verbatim>\<open>finish_update(optimizer)\<close> applies
  \<^verbatim>\<open>optimizer(param, grad)\<close> to every parameter of the node and, recursively, of every
  child, and then resets the gradient of the parameter to zero (\<^verbatim>\<open>get_grad\<close> returns
  all-zero afterwards, not \<^verbatim>\<open>GradNotFound\<close>).\<close>

fun finish_update :: "(tensor \<Rightarrow> tensor \<Rightarrow> tensor) \<Rightarrow> Model \<Rightarrow> Model" where
  "finish_update optimizer (Model nm ds ps gs ls) =
     Model nm ds
       (\<lambda>k. case ps k of
              None \<Rightarrow> None
            | Some t \<Rightarrow> Some (optimizer t (grad_or_zero t (gs k))))
       (\<lambda>k. case ps k of
              None \<Rightarrow> gs k
            | Some t \<Rightarrow> Some (replicate (length (grad_or_zero t (gs k))) 0))
       (map (finish_update optimizer) ls)"

text \<open>Modelled from the spec: plain SGD with learning rate 1, the optimizer that returns
  \<^verbatim>\<open>param - grad\<close>.\<close>

definition sgd :: "tensor \<Rightarrow> tensor \<Rightarrow> tensor" where
  "sgd param grad = map2 (-) param grad"


text \<open>Modelled from the spec: the mutating operations of a node (section 5). What an
  init function does to a node it does through these setters.\<close>

datatype op = SetDim string nat | SetParam string tensor | IncGrad string tensor
  | FinishUpdate "tensor \<Rightarrow> tensor \<Rightarrow> tensor"

text \<open>Modelled from the spec: one call of a mutating operation.\<close>

fun apply_op :: "Model \<Rightarrow> op \<Rightarrow> error + Model" where
  "apply_op m (SetDim d v) = set_dim m d v"
| "apply_op m (SetParam p t) = set_param m p t"
| "apply_op m (IncGrad p delta) = inc_grad m p delta"
| "apply_op m (FinishUpdate optimizer) = Inr (finish_update optimizer m)"

text \<open>Modelled from the spec: the node after a call. A call that fails raises its error
  to the caller and leaves the node as it was.\<close>

definition state_after :: "Model \<Rightarrow> op \<Rightarrow> Model" where
  "state_after m x = (case apply_op m x of Inl e \<Rightarrow> m | Inr m' \<Rightarrow> m')"

text \<open>Modelled from the spec: the node after a sequence of calls, whether or not some
  of them fail.\<close>

fun run_ops :: "Model \<Rightarrow> op list \<Rightarrow> Model" where
  "run_ops m [] = m"
| "run_ops m (x # xs) = run_ops (state_after m x) xs"

text \<open>Modelled from the spec: two calls in sequence; an error of the first call ends the
  sequence, as a raised exception does.\<close>

definition then_do :: "error + 'a \<Rightarrow> ('a \<Rightarrow> error + 'b) \<Rightarrow> error + 'b" where
  "then_do r f = (case r of Inl e \<Rightarrow> Inl e | Inr a \<Rightarrow> f a)"

section \<open>Properties of Example.init\<close>

lemma Example_init_is_valid_block:
  "block_of (snd (Example_init sz mem n_class n_atom n_feat n_embed))
       (is_valid (fst (Example_init sz mem n_class n_atom n_feat n_embed)))
     = replicate (4 * nat n_class) 1"
  by (simp add: Example_init_def Pool_alloc_def memset_def block_of_def sizeof_int_def
      Let_def)

lemma int_at_ones:
  assumes "i < n"
  shows "int_at (replicate (4 * n) 1) i = 16843009"
proof -
  have "4 * i + 3 < 4 * n"
    using assms by simp
  then show ?thesis
    by (simp add: int_at_def)
qed

text \<open>
  Claim C10. For every pool and non-negative counts, \<^verbatim>\<open>Example.init\<close> returns a struct
  whose \<^verbatim>\<open>gradient\<close>, \<^verbatim>\<open>fwd_state\<close> and \<^verbatim>\<open>bwd_state\<close> are \<^verbatim>\<open>NULL\<close>, whose \<^verbatim>\<open>guess\<close>,
  \<^verbatim>\<open>best\<close> and \<^verbatim>\<open>cost\<close> are 0, whose \<^verbatim>\<open>nr_class\<close>, \<^verbatim>\<open>nr_atom\<close> and \<^verbatim>\<open>nr_feat\<close> are the
  arguments, and whose \<^verbatim>\<open>is_valid\<close> array holds \<^verbatim>\<open>nr_class\<close> ints, each equal to
  16843009 (every byte is 1): a nonzero value that is not the integer 1.
\<close>

theorem Example_init_result:
  assumes "0 \<le> n_class" and "0 \<le> n_atom" and "0 \<le> n_feat"
  shows "gradient (fst (Example_init sz mem n_class n_atom n_feat n_embed)) = NULL
    \<and> fwd_state (fst (Example_init sz mem n_class n_atom n_feat n_embed)) = NULL
    \<and> bwd_state (fst (Example_init sz mem n_class n_atom n_feat n_embed)) = NULL
    \<and> guess (fst (Example_init sz mem n_class n_atom n_feat n_embed)) = 0
    \<and> best (fst (Example_init sz mem n_class n_atom n_feat n_embed)) = 0
    \<and> cost (fst (Example_init sz mem n_class n_atom n_feat n_embed)) = 0
    \<and> nr_class (fst (Example_init sz mem n_class n_atom n_feat n_embed)) = n_class
    \<and> nr_atom (fst (Example_init sz mem n_class n_atom n_feat n_embed)) = n_atom
    \<and> nr_feat (fst (Example_init sz mem n_class n_atom n_feat n_embed)) = n_feat
    \<and> length (block_of (snd (Example_init sz mem n_class n_atom n_feat n_embed))
         (is_valid (fst (Example_init sz mem n_class n_atom n_feat n_embed))))
         = sizeof_int * nat n_class
    \<and> (\<forall>i. i < nat n_class \<longrightarrow>
         int_at (block_of (snd (Example_init sz mem n_class n_atom n_feat n_embed))
           (is_valid (fst (Example_init sz mem n_class n_atom n_feat n_embed)))) i
         = 16843009)
    \<and> (16843009 :: 32 word) \<noteq> 0 \<and> (16843009 :: 32 word) \<noteq> 1"
proof -
  have fields: "gradient (fst (Example_init sz mem n_class n_atom n_feat n_embed)) = NULL
    \<and> fwd_state (fst (Example_init sz mem n_class n_atom n_feat n_embed)) = NULL
    \<and> bwd_state (fst (Example_init sz mem n_class n_atom n_feat n_embed)) = NULL
    \<and> guess (fst (Example_init sz mem n_class n_atom n_feat n_embed)) = 0
    \<and> best (fst (Example_init sz mem n_class n_atom n_feat n_embed)) = 0
    \<and> cost (fst (Example_init sz mem n_class n_atom n_feat n_embed)) = 0
    \<and> nr_class (fst (Example_init sz mem n_class n_atom n_feat n_embed)) = n_class
    \<and> nr_atom (fst (Example_init sz mem n_class n_atom n_feat n_embed)) = n_atom
    \<and> nr_feat (fst (Example_init sz mem n_class n_atom n_feat n_embed)) = n_feat"
    by (simp add: Example_init_def Pool_alloc_def Let_def)
  have len: "length (block_of (snd (Example_init sz mem n_class n_atom n_feat n_embed))
         (is_valid (fst (Example_init sz mem n_class n_atom n_feat n_embed))))
         = sizeof_int * nat n_class"
    by (simp add: Example_init_is_valid_block sizeof_int_def)
  have ints: "\<forall>i. i < nat n_class \<longrightarrow>
         int_at (block_of (snd (Example_init sz mem n_class n_atom n_feat n_embed))
           (is_valid (fst (Example_init sz mem n_class n_atom n_feat n_embed)))) i
         = 16843009"
    by (simp add: Example_init_is_valid_block int_at_ones)
  have "(16843009 :: 32 word) \<noteq> 0" and "(16843009 :: 32 word) \<noteq> 1"
    by simp_all
  with fields len ints show ?thesis
    by blast
qed

theorem Example_init_result_witness:
  "(0::int) \<le> 3 \<and> (0::int) \<le> 2 \<and> (0::int) \<le> 1
   \<and> nr_class (fst (Example_init \<lparr>sizeof_weight_t = 4, sizeof_atom_t = 8, sizeof_FeatureC = 24\<rparr>
          \<lparr>addresses = Map.empty, next_addr = 0\<rparr> 3 2 1 0)) = 3
   \<and> gradient (fst (Example_init \<lparr>sizeof_weight_t = 4, sizeof_atom_t = 8, sizeof_FeatureC = 24\<rparr>
          \<lparr>addresses = Map.empty, next_addr = 0\<rparr> 3 2 1 0)) = NULL
   \<and> int_at (block_of (snd (Example_init \<lparr>sizeof_weight_t = 4, sizeof_atom_t = 8, sizeof_FeatureC = 24\<rparr>
          \<lparr>addresses = Map.empty, next_addr = 0\<rparr> 3 2 1 0))
        (is_valid (fst (Example_init \<lparr>sizeof_weight_t = 4, sizeof_atom_t = 8, sizeof_FeatureC = 24\<rparr>
          \<lparr>addresses = Map.empty, next_addr = 0\<rparr> 3 2 1 0)))) 2 = 16843009"
proof -
  have h: "(0::int) \<le> 3" "(0::int) \<le> 2" "(0::int) \<le> 1"
    by simp_all
  note r = Example_init_result [OF h, of "\<lparr>sizeof_weight_t = 4, sizeof_atom_t = 8, sizeof_FeatureC = 24\<rparr>"
      "\<lparr>addresses = Map.empty, next_addr = 0\<rparr>" 0]
  have a: "nr_class (fst (Example_init \<lparr>sizeof_weight_t = 4, sizeof_atom_t = 8, sizeof_FeatureC = 24\<rparr>
          \<lparr>addresses = Map.empty, next_addr = 0\<rparr> 3 2 1 0)) = 3"
    using r by (elim conjE)
  have b: "gradient (fst (Example_init \<lparr>sizeof_weight_t = 4, sizeof_atom_t = 8, sizeof_FeatureC = 24\<rparr>
          \<lparr>addresses = Map.empty, next_addr = 0\<rparr> 3 2 1 0)) = NULL"
    using r by (elim conjE)
  have c: "int_at (block_of (snd (Example_init \<lparr>sizeof_weight_t = 4, sizeof_atom_t = 8, sizeof_FeatureC = 24\<rparr>
          \<lparr>addresses = Map.empty, next_addr = 0\<rparr> 3 2 1 0))
        (is_valid (fst (Example_init \<lparr>sizeof_weight_t = 4, sizeof_atom_t = 8, sizeof_FeatureC = 24\<rparr>
          \<lparr>addresses = Map.empty, next_addr = 0\<rparr> 3 2 1 0)))) 2 = 16843009"
    using r by (elim conjE allE [of _ 2]) simp
  from h a b c show ?thesis
    by simp
qed

section \<open>Properties of the GEMV kernels\<close>

text \<open>
  Both variants of the 4x4 kernel are characterised entry by entry: after the loop that
  starts at index \<open>i\<close>, every entry from \<open>i\<close> up to \<open>2 * n\<close> has grown by \<open>incr4\<close>
  and every other entry is as before.
\<close>

lemma zgemv_kernel_4x4_scalar_body_apply:
  assumes "even i"
  shows "zgemv_kernel_4x4_scalar_body c a0 a1 a2 a3 x i y p =
    (if p = i \<or> p = i + 1 then y p + incr4 c a0 a1 a2 a3 x p else y p)"
  using assms
  by (simp add: zgemv_kernel_4x4_scalar_body_def incr4_def cmul_re_def cmul_im_def Let_def)

lemma zgemv_kernel_4x4_scalar_loop_apply:
  assumes "even i"
  shows "zgemv_kernel_4x4_scalar_loop c n a0 a1 a2 a3 x i y p =
    (if i \<le> p \<and> p < 2 * n then y p + incr4 c a0 a1 a2 a3 x p else y p)"
  using assms
proof (induction c n a0 a1 a2 a3 x i y rule: zgemv_kernel_4x4_scalar_loop.induct)
  case (1 c n a0 a1 a2 a3 x i y)
  show ?case
  proof (cases "i < 2 * n")
    case True
    have ev: "even (i + 2)"
      using "1.prems" by simp
    have lt: "i + 1 < 2 * n"
      using True "1.prems" by presburger
    show ?thesis
      using True lt
      by (subst zgemv_kernel_4x4_scalar_loop.simps)
        (auto simp: "1.IH" [OF True ev] zgemv_kernel_4x4_scalar_body_apply [OF "1.prems"])
  next
    case False
    then show ?thesis
      by (subst zgemv_kernel_4x4_scalar_loop.simps) simp
  qed
qed

lemma zgemv_kernel_4x4_body_apply:
  assumes "even i"
  shows "zgemv_kernel_4x4_body c a0 a1 a2 a3 (x 0, x 0) (x 1, x 1) (x 2, x 2) (x 3, x 3)
       (x 4, x 4) (x 5, x 5) (x 6, x 6) (x 7, x 7) i y p =
    (if i \<le> p \<and> p < i + 4 then y p + incr4 c a0 a1 a2 a3 x p else y p)"
proof -
  have cases: "i \<le> p \<and> p < i + 4 \<longleftrightarrow> p = i \<or> p = i + 1 \<or> p = i + 2 \<or> p = i + 3"
    by auto
  show ?thesis
    unfolding cases using assms
    by (auto simp: zgemv_kernel_4x4_body_def incr4_def cmul_re_def cmul_im_def Let_def
        vmul_def vadd_def vsub_def add.commute)
qed

lemma zgemv_kernel_4x4_loop_apply:
  assumes "4 dvd i" and "even n"
  shows "zgemv_kernel_4x4_loop c n a0 a1 a2 a3 (x 0, x 0) (x 1, x 1) (x 2, x 2) (x 3, x 3)
       (x 4, x 4) (x 5, x 5) (x 6, x 6) (x 7, x 7) i y p =
    (if i \<le> p \<and> p < 2 * n then y p + incr4 c a0 a1 a2 a3 x p else y p)"
  using assms
proof (induction c n a0 a1 a2 a3 "(x 0, x 0)" "(x 1, x 1)" "(x 2, x 2)" "(x 3, x 3)"
       "(x 4, x 4)" "(x 5, x 5)" "(x 6, x 6)" "(x 7, x 7)" i y
       rule: zgemv_kernel_4x4_loop.induct)
  case (1 c n a0 a1 a2 a3 i y)
  have evi: "even i"
    using "1.prems"(1) by presburger
  show ?case
  proof (cases "i < 2 * n")
    case True
    have d: "4 dvd (i + 4)"
      using "1.prems"(1) by simp
    have lt: "i + 3 < 2 * n"
      using True "1.prems" by presburger
    show ?thesis
      using True lt
      by (subst zgemv_kernel_4x4_loop.simps)
        (auto simp: "1.hyps" [OF True d "1.prems"(2)] zgemv_kernel_4x4_body_apply [OF evi])
  next
    case False
    then show ?thesis
      by (subst zgemv_kernel_4x4_loop.simps) simp
  qed
qed

lemma zgemv_kernel_4x4_apply:
  assumes "even n"
  shows "zgemv_kernel_4x4 c n ap x y p =
    (if 0 \<le> p \<and> p < 2 * n then y p + incr4 c (ap 0) (ap 1) (ap 2) (ap 3) x p else y p)"
  using zgemv_kernel_4x4_loop_apply [of 0 n c "ap 0" "ap 1" "ap 2" "ap 3" x y p] assms
  by (simp add: zgemv_kernel_4x4_def)

lemma zgemv_kernel_4x4_scalar_apply:
  "zgemv_kernel_4x4_scalar c n ap x y p =
    (if 0 \<le> p \<and> p < 2 * n then y p + incr4 c (ap 0) (ap 1) (ap 2) (ap 3) x p else y p)"
  using zgemv_kernel_4x4_scalar_loop_apply [of 0 c n "ap 0" "ap 1" "ap 2" "ap 3" x y p]
  by (simp add: zgemv_kernel_4x4_scalar_def)

lemma incr4_complex:
  "Complex (incr4 c (ap 0) (ap 1) (ap 2) (ap 3) x (2 * k))
           (incr4 c (ap 0) (ap 1) (ap 2) (ap 3) x (2 * k + 1))
     = (\<Sum>j<4. cmul_cfg c (cplx_at (ap j) k) (cplx_at x (int j)))"
  by (simp add: incr4_def cmul_re_def cmul_im_def cmul_cfg_def cplx_at_def numeral_eq_Suc
      complex_eq_iff)

text \<open>
  Claim C9. For every \<open>n\<close> that is a multiple of 2, every four column pointers \<open>ap\<close>,
  every \<open>x\<close> and every \<open>y\<close>, the vector variant and the scalar fallback of
  \<^verbatim>\<open>zgemv_kernel_4x4\<close> produce the same final \<open>y\<close> over the reals: each complex
  \<open>y[k]\<close>, \<open>0 \<le> k < n\<close>, is incremented by the sum over \<open>j = 0..3\<close> of the product of
  \<open>ap[j][k]\<close> and \<open>x[j]\<close> that the \<^verbatim>\<open>CONJ\<close>/\<^verbatim>\<open>XCONJ\<close> configuration selects, and
  nothing outside \<open>y[0 .. 2 * n - 1]\<close> is written.
\<close>

theorem zgemv_kernel_4x4_variants_agree:
  assumes "even n"
  shows "zgemv_kernel_4x4 c n ap x y = zgemv_kernel_4x4_scalar c n ap x y
    \<and> (\<forall>k. 0 \<le> k \<and> k < n \<longrightarrow>
          cplx_at (zgemv_kernel_4x4 c n ap x y) k
            = cplx_at y k + (\<Sum>j<4. cmul_cfg c (cplx_at (ap j) k) (cplx_at x (int j))))
    \<and> (\<forall>p. p < 0 \<or> 2 * n \<le> p \<longrightarrow> zgemv_kernel_4x4 c n ap x y p = y p)"
proof (intro conjI allI impI)
  show "zgemv_kernel_4x4 c n ap x y = zgemv_kernel_4x4_scalar c n ap x y"
    by (rule ext) (simp add: zgemv_kernel_4x4_apply [OF assms] zgemv_kernel_4x4_scalar_apply)
next
  fix k :: int
  assume k: "0 \<le> k \<and> k < n"
  then have a: "0 \<le> 2 * k \<and> 2 * k < 2 * n" and b: "0 \<le> 2 * k + 1 \<and> 2 * k + 1 < 2 * n"
    by auto
  have "cplx_at (zgemv_kernel_4x4 c n ap x y) k
      = cplx_at y k + Complex (incr4 c (ap 0) (ap 1) (ap 2) (ap 3) x (2 * k))
           (incr4 c (ap 0) (ap 1) (ap 2) (ap 3) x (2 * k + 1))"
    using a b by (simp add: cplx_at_def zgemv_kernel_4x4_apply [OF assms] complex_eq_iff)
  then show "cplx_at (zgemv_kernel_4x4 c n ap x y) k
      = cplx_at y k + (\<Sum>j<4. cmul_cfg c (cplx_at (ap j) k) (cplx_at x (int j)))"
    by (simp only: incr4_complex)
next
  fix p :: int
  assume "p < 0 \<or> 2 * n \<le> p"
  then show "zgemv_kernel_4x4 c n ap x y p = y p"
    by (auto simp: zgemv_kernel_4x4_apply [OF assms])
qed

theorem zgemv_kernel_4x4_variants_agree_witness:
  "even (2 :: int)
   \<and> zgemv_kernel_4x4 \<lparr>CONJ = False, XCONJ = False\<rparr> 2 (\<lambda>j i. of_int i) (\<lambda>i. 1) (\<lambda>i. 0)
       = zgemv_kernel_4x4_scalar \<lparr>CONJ = False, XCONJ = False\<rparr> 2 (\<lambda>j i. of_int i) (\<lambda>i. 1) (\<lambda>i. 0)
   \<and> cplx_at (zgemv_kernel_4x4 \<lparr>CONJ = False, XCONJ = False\<rparr> 2 (\<lambda>j i. of_int i) (\<lambda>i. 1) (\<lambda>i. 0)) 1
       = Complex (- 4) 20"
proof -
  have h: "even (2 :: int)"
    by simp
  note r = zgemv_kernel_4x4_variants_agree [OF h, of "\<lparr>CONJ = False, XCONJ = False\<rparr>"
      "\<lambda>j i. of_int i" "\<lambda>i. 1" "\<lambda>i. 0"]
  have a: "zgemv_kernel_4x4 \<lparr>CONJ = False, XCONJ = False\<rparr> 2 (\<lambda>j i. of_int i) (\<lambda>i. 1) (\<lambda>i. 0)
       = zgemv_kernel_4x4_scalar \<lparr>CONJ = False, XCONJ = False\<rparr> 2 (\<lambda>j i. of_int i) (\<lambda>i. 1) (\<lambda>i. 0)"
    using r by (elim conjE)
  have "cplx_at (zgemv_kernel_4x4 \<lparr>CONJ = False, XCONJ = False\<rparr> 2 (\<lambda>j i. of_int i) (\<lambda>i. 1) (\<lambda>i. 0)) 1
       = cplx_at (\<lambda>i. 0) 1 + (\<Sum>j<4. cmul_cfg \<lparr>CONJ = False, XCONJ = False\<rparr>
            (cplx_at ((\<lambda>j i. of_int i) j) 1) (cplx_at (\<lambda>i. 1) (int j)))"
    using r by (elim conjE allE [of _ 1]) simp
  then have b: "cplx_at (zgemv_kernel_4x4 \<lparr>CONJ = False, XCONJ = False\<rparr> 2 (\<lambda>j i. of_int i) (\<lambda>i. 1) (\<lambda>i. 0)) 1
       = Complex (- 4) 20"
    by (simp add: cplx_at_def cmul_cfg_def same_conj_def complex_eq_iff)
  from h a b show ?thesis
    by simp
qed

text \<open>
  Claim C8. \<^verbatim>\<open>CNAME\<close> returns 0 on every path, and when \<open>m < 1\<close> or \<open>n < 1\<close> it
  returns at once: the result does not depend on any array, and \<open>y\<close> (like the buffer)
  is unchanged.
\<close>

theorem CNAME_returns_zero:
  "fst (CNAME c m n dummy1 alpha_r alpha_i A lda X inc_x Y inc_y buffer) = 0
   \<and> (m < 1 \<or> n < 1 \<longrightarrow>
        CNAME c m n dummy1 alpha_r alpha_i A lda X inc_x Y inc_y buffer = (0, Y, buffer))"
proof (cases "m < 1 \<or> n < 1")
  case True
  then have "CNAME c m n dummy1 alpha_r alpha_i A lda X inc_x Y inc_y buffer = (0, Y, buffer)"
    by (auto simp: CNAME_def)
  then show ?thesis
    by simp
next
  case False
  then have "fst (CNAME c m n dummy1 alpha_r alpha_i A lda X inc_x Y inc_y buffer) = 0"
    by (simp add: CNAME_def Let_def split: prod.splits)
  with False show ?thesis
    by simp
qed

theorem CNAME_returns_zero_witness:
  "(0 :: int) < 1
   \<and> CNAME \<lparr>CONJ = False, XCONJ = False\<rparr> 0 3 0 2 1 (\<lambda>i. of_int i) 1 (\<lambda>i. 1) 1
        (\<lambda>i. of_int i) 1 (\<lambda>i. 7)
       = (0, \<lambda>i. of_int i, \<lambda>i. 7)
   \<and> fst (CNAME \<lparr>CONJ = False, XCONJ = False\<rparr> 5 3 0 2 1 (\<lambda>i. of_int i) 5 (\<lambda>i. 1) 1
        (\<lambda>i. of_int i) 1 (\<lambda>i. 7)) = 0"
proof -
  have a: "CNAME \<lparr>CONJ = False, XCONJ = False\<rparr> 0 3 0 2 1 (\<lambda>i. of_int i) 1 (\<lambda>i. 1) 1
        (\<lambda>i. of_int i) 1 (\<lambda>i. 7)
       = (0, \<lambda>i. of_int i, \<lambda>i. 7)"
    using CNAME_returns_zero [of "\<lparr>CONJ = False, XCONJ = False\<rparr>" 0 3 0 2 1 "\<lambda>i. of_int i" 1
        "\<lambda>i. 1" 1 "\<lambda>i. of_int i" 1 "\<lambda>i. 7"]
    by simp
  have b: "fst (CNAME \<lparr>CONJ = False, XCONJ = False\<rparr> 5 3 0 2 1 (\<lambda>i. of_int i) 5 (\<lambda>i. 1) 1
        (\<lambda>i. of_int i) 1 (\<lambda>i. 7)) = 0"
    using CNAME_returns_zero [of "\<lparr>CONJ = False, XCONJ = False\<rparr>" 5 3 0 2 1 "\<lambda>i. of_int i" 5
        "\<lambda>i. 1" 1 "\<lambda>i. of_int i" 1 "\<lambda>i. 7"]
    by (elim conjE)
  from a b show ?thesis
    by simp
qed

text \<open>
  A run of the model on a 5 by 3 matrix with \<open>alpha = 2 + i\<close>: the first four rows go
  through the 4x2 and 4x1 kernels and \<open>add_y\<close>, the fifth through the \<^verbatim>\<open>m3 == 1\<close>
  branch. The result is \<open>y + alpha * A * x\<close>.
\<close>

lemma CNAME_example_5x3:
  "map (fst (snd (CNAME \<lparr>CONJ = False, XCONJ = False\<rparr> 5 3 0 2 1
        (\<lambda>i. of_int ((i * i) mod 7) - 3) 5 (\<lambda>i. of_int ((i * 3) mod 5) - 2) 1
        (\<lambda>i. of_int i) 1 (\<lambda>i. 0))))
     [0, 1, 2, 3, 4, 5, 6, 7, 8, 9, 10, 11]
   = [6, 14, - 1, 29, 21, 1, 9, 21, 5, 5, 10, 11]"
  by (simp add: CNAME_def CNAME_blocks.simps CNAME_block_def NBMAX_def memset_FLOAT_def
      CNAME_n1_loop.simps zgemv_kernel_4x1_def zgemv_kernel_4x1_loop.simps
      zgemv_kernel_4x1_body_def zgemv_kernel_4x2_def zgemv_kernel_4x2_loop.simps
      zgemv_kernel_4x2_body_def add_y_def add_y_loop.simps ptr_add_def same_conj_def
      CNAME_m3_1_def CNAME_dot1_pair_loop.simps CNAME_dot1_loop.simps CNAME_store_def
      cmul_re_def cmul_im_def vmul_def vadd_def vsub_def Let_def)

section \<open>Properties of the Model node\<close>

lemma dims_finish_update: "dims (finish_update optimizer m) = dims m"
  by (cases m) simp

lemma state_after_keeps_dim:
  assumes "dims m d = Some v"
  shows "dims (state_after m x) d = Some v"
  using assms
  by (cases x)
    (auto simp: state_after_def set_dim_def set_param_def inc_grad_def dims_finish_update
      split: option.splits)

lemma run_ops_keeps_dim:
  assumes "dims m d = Some v"
  shows "dims (run_ops m xs) d = Some v"
  using assms
proof (induction xs arbitrary: m)
  case Nil
  then show ?case by simp
next
  case (Cons x xs)
  from Cons.prems have "dims (state_after m x) d = Some v"
    by (rule state_after_keeps_dim)
  then show ?case
    by (simp add: Cons.IH)
qed

text \<open>
  Claim C5. \<^verbatim>\<open>set_dim(d, v)\<close> fails with \<^verbatim>\<open>DimensionConflict\<close> if and only if \<open>d\<close> is
  already set to a value different from \<open>v\<close>, and then the node is unchanged; it
  succeeds when \<open>d\<close> is unset or already equals \<open>v\<close>. \<^verbatim>\<open>set_dim("nO", 10)\<close> followed by
  \<^verbatim>\<open>set_dim("nO", 20)\<close> fails with \<^verbatim>\<open>DimensionConflict\<close>, a second
  \<^verbatim>\<open>set_dim("nO", 10)\<close> after a first succeeds, and a dimension that is set keeps its
  value through every sequence of operations.
\<close>

theorem set_dim_conflict:
  "(set_dim m d v = Inl DimensionConflict \<longleftrightarrow> (\<exists>w. dims m d = Some w \<and> w \<noteq> v))
   \<and> (set_dim m d v = Inl DimensionConflict \<longrightarrow> state_after m (SetDim d v) = m)
   \<and> (dims m d = None \<or> dims m d = Some v \<longrightarrow>
        (\<exists>m'. set_dim m d v = Inr m' \<and> dims m' d = Some v))
   \<and> then_do (set_dim m ''nO'' 10) (\<lambda>m'. set_dim m' ''nO'' 20) = Inl DimensionConflict
   \<and> (\<forall>m'. set_dim m ''nO'' 10 = Inr m' \<longrightarrow> set_dim m' ''nO'' 10 = Inr m')
   \<and> (\<forall>w xs. dims m d = Some w \<longrightarrow> dims (run_ops m xs) d = Some w)"
proof (intro conjI)
  show "set_dim m d v = Inl DimensionConflict \<longleftrightarrow> (\<exists>w. dims m d = Some w \<and> w \<noteq> v)"
    by (auto simp: set_dim_def split: option.splits)
  show "set_dim m d v = Inl DimensionConflict \<longrightarrow> state_after m (SetDim d v) = m"
    by (simp add: state_after_def)
  show "dims m d = None \<or> dims m d = Some v \<longrightarrow>
      (\<exists>m'. set_dim m d v = Inr m' \<and> dims m' d = Some v)"
    by (auto simp: set_dim_def)
  show "then_do (set_dim m ''nO'' 10) (\<lambda>m'. set_dim m' ''nO'' 20) = Inl DimensionConflict"
    by (auto simp: then_do_def set_dim_def split: option.splits)
  show "\<forall>m'. set_dim m ''nO'' 10 = Inr m' \<longrightarrow> set_dim m' ''nO'' 10 = Inr m'"
    by (auto simp: set_dim_def split: option.splits if_splits)
  show "\<forall>w xs. dims m d = Some w \<longrightarrow> dims (run_ops m xs) d = Some w"
    by (simp add: run_ops_keeps_dim)
qed

theorem set_dim_conflict_witness:
  "set_dim (Model ''linear'' [''nO'' \<mapsto> 10] Map.empty Map.empty []) ''nO'' 20
     = Inl DimensionConflict
   \<and> state_after (Model ''linear'' [''nO'' \<mapsto> 10] Map.empty Map.empty []) (SetDim ''nO'' 20)
     = Model ''linear'' [''nO'' \<mapsto> 10] Map.empty Map.empty []
   \<and> set_dim (Model ''linear'' [''nO'' \<mapsto> 10] Map.empty Map.empty []) ''nO'' 10
     = Inr (Model ''linear'' [''nO'' \<mapsto> 10] Map.empty Map.empty [])
   \<and> dims (run_ops (Model ''linear'' [''nO'' \<mapsto> 10] Map.empty Map.empty [])
        [SetDim ''nO'' 20, SetParam ''W'' [1], IncGrad ''W'' [2], FinishUpdate sgd,
         SetDim ''nI'' 3]) ''nO'' = Some 10"
proof -
  note r = set_dim_conflict [of "Model ''linear'' [''nO'' \<mapsto> 10] Map.empty Map.empty []"
      "''nO''" 20]
  have d: "dims (Model ''linear'' [''nO'' \<mapsto> 10] Map.empty Map.empty []) ''nO'' = Some 10"
    by simp
  have a: "set_dim (Model ''linear'' [''nO'' \<mapsto> 10] Map.empty Map.empty []) ''nO'' 20
     = Inl DimensionConflict"
    using r d by simp
  have b: "state_after (Model ''linear'' [''nO'' \<mapsto> 10] Map.empty Map.empty [])
      (SetDim ''nO'' 20) = Model ''linear'' [''nO'' \<mapsto> 10] Map.empty Map.empty []"
    using r a by (elim conjE) simp
  have c: "set_dim (Model ''linear'' [''nO'' \<mapsto> 10] Map.empty Map.empty []) ''nO'' 10
     = Inr (Model ''linear'' [''nO'' \<mapsto> 10] Map.empty Map.empty [])"
    by (simp add: set_dim_def)
  have e: "dims (run_ops (Model ''linear'' [''nO'' \<mapsto> 10] Map.empty Map.empty [])
        [SetDim ''nO'' 20, SetParam ''W'' [1], IncGrad ''W'' [2], FinishUpdate sgd,
         SetDim ''nI'' 3]) ''nO'' = Some 10"
    using r d by (elim conjE) blast
  from a b c e show ?thesis
    by simp
qed









end
